theory Spec2Isabelle
  imports Complex_Main "HOL-Library.Sublist"
begin

section \<open>Python strings\<close>

text \<open>
  A Python \<open>str\<close> is a sequence of Unicode code points. The keywords and labels of the
  two scripts are ASCII, but two replies of \<open>ai_sales_response\<close> hold U+2019 and one
  holds U+2014, so code points are natural numbers and not 8-bit characters.
  \<open>str\<close> reads an ASCII literal as such a sequence.
\<close>

type_synonym codepoint = nat
type_synonym pystr = "codepoint list"

definition str :: "string \<Rightarrow> pystr" where
  "str s = map of_char s"

text \<open>
  \<open>text.lower()\<close>. On the code points below 128 it turns \<open>A\<close>..\<open>Z\<close> into
  \<open>a\<close>..\<open>z\<close> and keeps the rest. What it does to a code point from 128 on is
  decided by the case tables of the interpreter (one code point may become several, and
  capital sigma depends on its neighbours); those tables are no part of the repository,
  so they are the parameter \<open>U\<close>: \<open>U before c after\<close> is the lowercase of \<open>c\<close> standing
  between \<open>before\<close> and \<open>after\<close>.
\<close>

type_synonym unicode_lower = "pystr \<Rightarrow> codepoint \<Rightarrow> pystr \<Rightarrow> pystr"

definition ascii_lower :: "codepoint \<Rightarrow> codepoint" where
  "ascii_lower c = (if 65 \<le> c \<and> c \<le> 90 then c + 32 else c)"

fun lower_from :: "unicode_lower \<Rightarrow> pystr \<Rightarrow> pystr \<Rightarrow> pystr" where
  "lower_from U before [] = []"
| "lower_from U before (c # after) =
     (if c < 128 then [ascii_lower c] else U before c after)
       @ lower_from U (before @ [c]) after"

definition lower :: "unicode_lower \<Rightarrow> pystr \<Rightarrow> pystr" where
  "lower U text = lower_from U [] text"

text \<open>\<open>x in t\<close> on two strings: \<open>x\<close> occurs in \<open>t\<close> as a contiguous run.\<close>

fun str_in :: "pystr \<Rightarrow> pystr \<Rightarrow> bool" where
  "str_in x [] = (x = [])"
| "str_in x (c # cs) = (prefix x (c # cs) \<or> str_in x cs)"

text \<open>\<open>any(x in t for x in keywords)\<close>.\<close>

definition any_in :: "pystr list \<Rightarrow> pystr \<Rightarrow> bool" where
  "any_in keywords t = list_ex (\<lambda>x. str_in x t) keywords"

text \<open>
  \<open>s.strip()\<close>: the whitespace at both ends is dropped. Which code points are
  whitespace is a table of the interpreter too, the parameter \<open>space\<close>.
\<close>

definition strip :: "(codepoint \<Rightarrow> bool) \<Rightarrow> pystr \<Rightarrow> pystr" where
  "strip space s = rev (dropWhile space (rev (dropWhile space s)))"

text \<open>
  A runtime for running the model on concrete text: no case mapping from 128 on, and
  the blank and the control characters 9 to 13 as whitespace.
\<close>

definition keep_non_ascii :: unicode_lower where
  "keep_non_ascii before c after = [c]"

definition ascii_space :: "codepoint \<Rightarrow> bool" where
  "ascii_space c = (c = 32 \<or> (9 \<le> c \<and> c \<le> 13))"

text \<open>
  What is known of the case tables of an interpreter without listing them: a code point
  is \<open>lowered\<close> when \<open>lower\<close> leaves it alone wherever it stands, and the tables are
  stable when everything they produce for a code point from 128 on is lowered, that is,
  lowercase already.
\<close>

definition lowered :: "unicode_lower \<Rightarrow> codepoint \<Rightarrow> bool" where
  "lowered U d =
     (if d < 128 then ascii_lower d = d else (\<forall>before after. U before d after = [d]))"

definition stable_case_tables :: "unicode_lower \<Rightarrow> bool" where
  "stable_case_tables U =
     (\<forall>before c after. 128 \<le> c \<longrightarrow> (\<forall>d \<in> set (U before c after). lowered U d))"

text \<open>
  A runtime with a few lines of the case tables: the Kelvin sign U+212A becomes \<open>k\<close>,
  U+0130 becomes \<open>i\<close> and U+0307, U+00C9 becomes U+00E9, and capital sigma U+03A3
  becomes U+03C2 at the end of the text and U+03C3 elsewhere.
\<close>

definition sample_case_tables :: unicode_lower where
  "sample_case_tables before c after =
     (if c = 0x212A then [0x6B]
      else if c = 0x130 then [0x69, 0x307]
      else if c = 0xC9 then [0xE9]
      else if c = 0x3A3 then (if before \<noteq> [] \<and> after = [] then [0x3C2] else [0x3C3])
      else [c])"

section \<open>Intent detection\<close>

text \<open>\<open>detect_intent\<close> of \<open>app.py\<close>.\<close>

definition detect_intent :: "unicode_lower \<Rightarrow> pystr \<Rightarrow> pystr" where
  "detect_intent U text =
     (let t = lower U text in
      if any_in [str ''buy'', str ''purchase'', str ''interested'', str ''get a new''] t
        then str ''Purchase Interest''
      else if any_in [str ''price'', str ''cost'', str ''how much'', str ''expensive''] t
        then str ''Ask for Price''
      else if any_in [str ''not working'', str ''issue'', str ''problem'', str ''complaint''] t
        then str ''Complaint''
      else if any_in [str ''compare'', str ''specs'', str ''camera'', str ''battery''] t
        then str ''Product Comparison''
      else if any_in [str ''offer'', str ''discount'', str ''deal''] t
        then str ''Ask for Offers''
      else str ''General'')"

text \<open>\<open>detect_intent\<close> of \<open>sentiment analysis.py\<close>.\<close>

definition detect_intent_sentiment_analysis :: "unicode_lower \<Rightarrow> pystr \<Rightarrow> pystr" where
  "detect_intent_sentiment_analysis U text =
     (let t = lower U text in
      if any_in [str ''buy'', str ''purchase'', str ''interested'', str ''get a new''] t
        then str ''Purchase Interest''
      else if any_in [str ''price'', str ''cost'', str ''how much'', str ''expensive''] t
        then str ''Ask for price''
      else if any_in [str ''not working'', str ''issue'', str ''problem'', str ''complaint''] t
        then str ''Complaint''
      else if any_in [str ''compare'', str ''specs'', str ''camera'', str ''battery''] t
        then str ''Compare Product''
      else if any_in [str ''offer'', str ''discount'', str ''deal''] t
        then str ''Ask for offers''
      else str ''General'')"

section \<open>Sales suggestions\<close>

text \<open>
  \<open>ai_sales_response\<close> of \<open>app.py\<close>. The result is a dict with the three keys
  \<open>next_question\<close>, \<open>soft_handling\<close>, \<open>recommendation\<close>. The source spells
  \<open>I'll\<close> with U+2019 in two replies and the dash of the negative reply is U+2014;
  every other apostrophe is the ASCII one.
\<close>

definition ai_sales_response :: "pystr \<Rightarrow> pystr \<Rightarrow> (pystr \<rightharpoonup> pystr)" where
  "ai_sales_response intent sentiment =
     (if intent = str ''Purchase Interest'' then
        [str ''next_question'' \<mapsto>
           str ''Would you like to know the available models or pricing?'',
         str ''soft_handling'' \<mapsto> str ''Great! Let me help you choose the best option.'',
         str ''recommendation'' \<mapsto>
           str ''Our latest model offers excellent value for buyers.'']
      else if intent = str ''Ask for Price'' then
        [str ''next_question'' \<mapsto> str ''Do you have any budget range in mind?'',
         str ''soft_handling'' \<mapsto>
           str ''I'' @ [0x2019] @ str ''ll help you find the best model in your range.'',
         str ''recommendation'' \<mapsto> str ''We have offers and EMI options you might like.'']
      else if intent = str ''Complaint'' then
        [str ''next_question'' \<mapsto> str ''Could you explain the issue you're facing?'',
         str ''soft_handling'' \<mapsto> str ''I truly apologize for the inconvenience.'',
         str ''recommendation'' \<mapsto> str ''We can quickly guide you through a solution.'']
      else if sentiment = str ''NEGATIVE'' then
        [str ''next_question'' \<mapsto> str ''What would you like us to improve?'',
         str ''soft_handling'' \<mapsto>
           str ''I understand your concern '' @ [0x2014] @ str '' I'm here to help.'',
         str ''recommendation'' \<mapsto>
           str ''We can offer alternatives that better fit your needs.'']
      else
        [str ''next_question'' \<mapsto> str ''How can I assist you further?'',
         str ''soft_handling'' \<mapsto> str ''I'm right here to help.'',
         str ''recommendation'' \<mapsto>
           str ''Let me know your preference and I'' @ [0x2019]
             @ str ''ll recommend the best option.''])"

section \<open>The analysis run\<close>

text \<open>
  The three models are loaded once and called as black boxes, so they are parameters of
  a run. A call either raises, which ends the run (there is no \<open>try\<close> in either
  script), or returns: \<open>transcribe\<close> a dict whose \<open>text\<close> entry may be missing, the
  sentiment pipeline a list of results with a label and a score, the entity model the
  entities of the document as pairs of text and label.
\<close>

datatype error = ModelError | IndexError

datatype call = Transcribe pystr | Sentiment pystr | Entities pystr

record 'score models =
  whisper_model :: "pystr \<Rightarrow> error + pystr option"
  sentiment_model :: "pystr \<Rightarrow> error + (pystr \<times> 'score) list"
  ner_model :: "pystr \<Rightarrow> error + (pystr \<times> pystr) list"

text \<open>
  What a run computes and shows. The score is only rounded for display and is left out.
\<close>

record shown =
  transcript :: pystr
  sentiment_label :: pystr
  intent :: pystr
  entities :: "(pystr \<times> pystr) list"

record shown_app = shown +
  ai :: "pystr \<rightharpoonup> pystr"

text \<open>
  The block under \<open>if wav_path:\<close> of \<open>app.py\<close>, with the calls made to the models in
  their order. \<open>wav_path\<close> is \<open>None\<close> until a recording or an upload has set it, and
  an empty path counts as false. \<open>sentiment_model(text)[0]\<close> raises on an empty list.
\<close>

definition run_app ::
  "(codepoint \<Rightarrow> bool) \<Rightarrow> unicode_lower \<Rightarrow> 'score models \<Rightarrow> pystr option
     \<Rightarrow> call list \<times> (error + shown_app option)" where
  "run_app space U M wav_path =
     (case wav_path of
        None \<Rightarrow> ([], Inr None)
      | Some p \<Rightarrow>
          if p = [] then ([], Inr None)
          else
            (case whisper_model M p of
               Inl e \<Rightarrow> ([Transcribe p], Inl e)
             | Inr result \<Rightarrow>
                 let t = strip space (case result of Some s \<Rightarrow> s | None \<Rightarrow> []) in
                 (case sentiment_model M t of
                    Inl e \<Rightarrow> ([Transcribe p, Sentiment t], Inl e)
                  | Inr [] \<Rightarrow> ([Transcribe p, Sentiment t], Inl IndexError)
                  | Inr (sent # _) \<Rightarrow>
                      let label = fst sent;
                          i = detect_intent U t
                      in (case ner_model M t of
                            Inl e \<Rightarrow> ([Transcribe p, Sentiment t, Entities t], Inl e)
                          | Inr ents \<Rightarrow>
                              ([Transcribe p, Sentiment t, Entities t],
                               Inr (Some \<lparr>transcript = t, sentiment_label = label,
                                 intent = i, entities = ents,
                                 ai = ai_sales_response i label\<rparr>))))))"

text \<open>
  The block under the button of \<open>sentiment analysis.py\<close>, on the path that
  \<open>record_audio\<close> returned: the same steps without the sales suggestions.
\<close>

definition run_sentiment_analysis ::
  "(codepoint \<Rightarrow> bool) \<Rightarrow> unicode_lower \<Rightarrow> 'score models \<Rightarrow> pystr
     \<Rightarrow> call list \<times> (error + shown)" where
  "run_sentiment_analysis space U M wav_path =
     (case whisper_model M wav_path of
        Inl e \<Rightarrow> ([Transcribe wav_path], Inl e)
      | Inr result \<Rightarrow>
          let t = strip space (case result of Some s \<Rightarrow> s | None \<Rightarrow> []) in
          (case sentiment_model M t of
             Inl e \<Rightarrow> ([Transcribe wav_path, Sentiment t], Inl e)
           | Inr [] \<Rightarrow> ([Transcribe wav_path, Sentiment t], Inl IndexError)
           | Inr (sent # _) \<Rightarrow>
               let label = fst sent;
                   i = detect_intent_sentiment_analysis U t
               in (case ner_model M t of
                     Inl e \<Rightarrow> ([Transcribe wav_path, Sentiment t, Entities t], Inl e)
                   | Inr ents \<Rightarrow>
                       ([Transcribe wav_path, Sentiment t, Entities t],
                        Inr \<lparr>transcript = t, sentiment_label = label,
                          intent = i, entities = ents\<rparr>))))"

text \<open>
  Models for a run on a silent clip: transcription returns a blank, the sentiment
  pipeline one result, the entity model no entity.
\<close>

definition silence :: "real models" where
  "silence =
     \<lparr>whisper_model = (\<lambda>p. Inr (Some (str '' ''))),
      sentiment_model = (\<lambda>t. Inr [(str ''POSITIVE'', 0.75)]),
      ner_model = (\<lambda>t. Inr [])\<rparr>"

section \<open>The rule table of the specification\<close>

text \<open>
  The specification gives intent classification as an ordered table of keyword sets and
  labels, read on the lowercased text: the label of the first set with a substring match,
  and General when no set matches. The table and its reading are written here from the
  specification's words, to be compared with \<open>detect_intent\<close>.
\<close>

definition spec_rule_table :: "(pystr list \<times> pystr) list" where
  "spec_rule_table =
     [([str ''buy'', str ''purchase'', str ''interested'', str ''get a new''],
         str ''Purchase Interest''),
      ([str ''price'', str ''cost'', str ''how much'', str ''expensive''],
         str ''Ask for Price''),
      ([str ''not working'', str ''issue'', str ''problem'', str ''complaint''],
         str ''Complaint''),
      ([str ''compare'', str ''specs'', str ''camera'', str ''battery''],
         str ''Product Comparison''),
      ([str ''offer'', str ''discount'', str ''deal''],
         str ''Ask for Offers'')]"

definition spec_rule_matches :: "pystr list \<times> pystr \<Rightarrow> pystr \<Rightarrow> bool" where
  "spec_rule_matches rule t = (\<exists>k \<in> set (fst rule). sublist k t)"

definition spec_classify_intent :: "pystr \<Rightarrow> pystr" where
  "spec_classify_intent t =
     (case find (\<lambda>rule. spec_rule_matches rule t) spec_rule_table of
        Some rule \<Rightarrow> snd rule
      | None \<Rightarrow> str ''General'')"

text \<open>
  The label that \<open>sentiment analysis.py\<close> gives where \<open>app.py\<close> gives \<open>l\<close>: rules 2, 4
  and 5 are worded differently, the other labels are shared.
\<close>

definition sentiment_analysis_label :: "pystr \<Rightarrow> pystr" where
  "sentiment_analysis_label l =
     (if l = str ''Ask for Price'' then str ''Ask for price''
      else if l = str ''Product Comparison'' then str ''Compare Product''
      else if l = str ''Ask for Offers'' then str ''Ask for offers''
      else l)"

section \<open>Facts about strings\<close>

lemma str_eq_iff [simp]: "str a = str b \<longleftrightarrow> a = b"
  by (simp add: str_def inj_map_eq_map [OF inj_of_char])

lemma str_Nil_iff [simp]: "str s = [] \<longleftrightarrow> s = []"
  by (simp add: str_def)

lemma str_in_iff_sublist: "str_in x t \<longleftrightarrow> sublist x t"
  by (induction t) (simp_all add: sublist_Cons_right)

lemma str_in_occurs: "str_in x t \<longleftrightarrow> (\<exists>ps ss. t = ps @ x @ ss)"
  by (simp add: str_in_iff_sublist sublist_def)

lemma any_in_iff: "any_in ks t \<longleftrightarrow> (\<exists>k \<in> set ks. sublist k t)"
  by (simp add: any_in_def list_ex_iff str_in_iff_sublist)

lemma lower_from_ascii:
  "\<forall>c \<in> set t. c < 128 \<Longrightarrow> lower_from U before t = map ascii_lower t"
  by (induction t arbitrary: before) simp_all

lemma lower_ascii: "\<forall>c \<in> set t. c < 128 \<Longrightarrow> lower U t = map ascii_lower t"
  by (simp add: lower_def lower_from_ascii)

lemma ascii_lower_idem: "ascii_lower (ascii_lower c) = ascii_lower c"
  by (simp add: ascii_lower_def)

lemma ascii_lower_less: "c < 128 \<Longrightarrow> ascii_lower c < 128"
  by (simp add: ascii_lower_def)

lemma lower_ascii_idem:
  assumes "\<forall>c \<in> set t. c < 128"
  shows "lower U (lower U t) = lower U t"
proof -
  have "\<forall>c \<in> set (map ascii_lower t). c < 128"
    using assms by (simp add: ascii_lower_less)
  then show ?thesis
    using assms by (simp add: lower_ascii ascii_lower_idem)
qed

lemma detect_intent_spec_classify:
  "detect_intent U t = spec_classify_intent (lower U t)"
  by (simp add: detect_intent_def spec_classify_intent_def spec_rule_table_def
      spec_rule_matches_def any_in_iff Let_def)

lemma lowered_ascii_lower: "c < 128 \<Longrightarrow> lowered U (ascii_lower c)"
  by (simp add: lowered_def ascii_lower_def)

lemma lower_from_lowered:
  "stable_case_tables U \<Longrightarrow> \<forall>d \<in> set (lower_from U before t). lowered U d"
proof (induction t arbitrary: before)
  case Nil
  show ?case by simp
next
  case (Cons c cs)
  show ?case
  proof (cases "c < 128")
    case True
    with Cons show ?thesis by (simp add: lowered_ascii_lower)
  next
    case False
    then have "128 \<le> c" by simp
    with Cons.prems have "\<forall>d \<in> set (U before c cs). lowered U d"
      unfolding stable_case_tables_def by blast
    with False Cons show ?thesis by auto
  qed
qed

lemma lower_from_fixed:
  "\<forall>d \<in> set t. lowered U d \<Longrightarrow> lower_from U before t = t"
  by (induction t arbitrary: before) (auto simp: lowered_def)

lemma lower_stable_idem: "stable_case_tables U \<Longrightarrow> lower U (lower U t) = lower U t"
  unfolding lower_def by (rule lower_from_fixed) (rule lower_from_lowered)

lemma sample_case_tables_stable: "stable_case_tables sample_case_tables"
  by (auto simp: stable_case_tables_def lowered_def sample_case_tables_def ascii_lower_def
      split: if_splits)

lemma detect_intent_lower_cong:
  "lower U a = lower U b \<Longrightarrow> detect_intent U a = detect_intent U b"
  by (simp add: detect_intent_def)

section \<open>The labels of intent detection\<close>

text \<open>
  C1 (as amended). \<open>detect_intent\<close> is a total function in both scripts. In \<open>app.py\<close>
  it returns one of Purchase Interest, Ask for Price, Complaint, Product Comparison,
  Ask for Offers, General and nothing else; in \<open>sentiment analysis.py\<close> it returns one
  of Purchase Interest, Ask for price, Complaint, Compare Product, Ask for offers,
  General and nothing else.
\<close>

theorem detect_intent_label_sets:
  "detect_intent U text \<in> set [str ''Purchase Interest'', str ''Ask for Price'',
       str ''Complaint'', str ''Product Comparison'', str ''Ask for Offers'', str ''General'']
   \<and> detect_intent_sentiment_analysis U text \<in> set [str ''Purchase Interest'',
       str ''Ask for price'', str ''Complaint'', str ''Compare Product'',
       str ''Ask for offers'', str ''General'']"
  unfolding detect_intent_def detect_intent_sentiment_analysis_def Let_def by simp

text \<open>
  C1 as stated fails on the second script: on the text \<open>price\<close> it returns
  \<open>Ask for price\<close>, which is none of the six labels of the claim.
\<close>

theorem detect_intent_sentiment_analysis_label_counterexample:
  "detect_intent_sentiment_analysis keep_non_ascii (str ''price'') = str ''Ask for price''
   \<and> str ''Ask for price'' \<notin> set [str ''Purchase Interest'', str ''Ask for Price'',
       str ''Complaint'', str ''Product Comparison'', str ''Ask for Offers'', str ''General'']"
proof -
  have low: "lower keep_non_ascii (str ''price'') = str ''price''"
    by (simp add: lower_def str_def ascii_lower_def)
  have hit: "str_in (str ''price'') (str ''price'')"
    by (simp add: str_in_iff_sublist)
  have miss: "\<not> any_in [str ''buy'', str ''purchase'', str ''interested'', str ''get a new'']
      (str ''price'')"
    by (simp add: any_in_def str_def)
  show ?thesis
    by (simp add: detect_intent_sentiment_analysis_def Let_def low miss)
      (simp add: any_in_def hit)
qed

section \<open>Priority of the rules\<close>

text \<open>
  C2. \<open>detect_intent\<close> reads the five keyword sets in the order of the table, first
  match wins: when rule \<open>i\<close> matches the lowercased text and no rule before it does,
  the label of rule \<open>i\<close> is returned. So a text with a keyword of rule 1 and a keyword
  of rule 2 is Purchase Interest, and the transcript about the camera that is not
  working is Complaint, rule 3 being read before rule 4.
\<close>

theorem detect_intent_first_match:
  "(\<forall>i < length spec_rule_table.
      spec_rule_matches (spec_rule_table ! i) (lower U text)
      \<and> (\<forall>j < i. \<not> spec_rule_matches (spec_rule_table ! j) (lower U text))
      \<longrightarrow> detect_intent U text = snd (spec_rule_table ! i))
   \<and> (\<forall>k1 \<in> set (fst (spec_rule_table ! 0)). \<forall>k2 \<in> set (fst (spec_rule_table ! 1)).
        sublist k1 (lower U text) \<and> sublist k2 (lower U text)
        \<longrightarrow> detect_intent U text = str ''Purchase Interest'')
   \<and> detect_intent U (str ''The camera on this model is not working, it's a real problem'')
        = str ''Complaint''"
proof (intro conjI allI ballI impI)
  fix i
  assume "i < length spec_rule_table"
    and "spec_rule_matches (spec_rule_table ! i) (lower U text)
      \<and> (\<forall>j < i. \<not> spec_rule_matches (spec_rule_table ! j) (lower U text))"
  then have "find (\<lambda>rule. spec_rule_matches rule (lower U text)) spec_rule_table
      = Some (spec_rule_table ! i)"
    unfolding find_Some_iff by blast
  then show "detect_intent U text = snd (spec_rule_table ! i)"
    by (simp add: detect_intent_spec_classify spec_classify_intent_def)
next
  fix k1 k2
  assume "k1 \<in> set (fst (spec_rule_table ! 0))"
    and "sublist k1 (lower U text) \<and> sublist k2 (lower U text)"
  then have "any_in [str ''buy'', str ''purchase'', str ''interested'', str ''get a new'']
      (lower U text)"
    unfolding any_in_iff spec_rule_table_def by auto
  then show "detect_intent U text = str ''Purchase Interest''"
    by (simp add: detect_intent_def)
next
  show "detect_intent U (str ''The camera on this model is not working, it's a real problem'')
      = str ''Complaint''"
    by (simp add: detect_intent_def Let_def lower_def str_def ascii_lower_def any_in_def)
qed

theorem detect_intent_first_match_witness:
  "sublist (str ''buy'') (lower keep_non_ascii (str ''I want to buy, what's the price?''))
   \<and> sublist (str ''price'') (lower keep_non_ascii (str ''I want to buy, what's the price?''))
   \<and> detect_intent keep_non_ascii (str ''I want to buy, what's the price?'')
        = str ''Purchase Interest''"
proof -
  have low: "lower keep_non_ascii (str ''I want to buy, what's the price?'')
      = str ''i want to buy, what's the price?''"
    by (simp add: lower_def str_def ascii_lower_def)
  have buy: "sublist (str ''buy'') (str ''i want to buy, what's the price?'')"
    by (simp add: str_def sublist_Cons_right)
  have price: "sublist (str ''price'') (str ''i want to buy, what's the price?'')"
    by (simp add: str_def sublist_Cons_right)
  have k1: "str ''buy'' \<in> set (fst (spec_rule_table ! 0))"
    and k2: "str ''price'' \<in> set (fst (spec_rule_table ! 1))"
    by (simp_all add: spec_rule_table_def)
  from detect_intent_first_match
    [of keep_non_ascii "str ''I want to buy, what's the price?''"]
  have "detect_intent keep_non_ascii (str ''I want to buy, what's the price?'')
      = str ''Purchase Interest''"
    using k1 k2 buy price unfolding low by blast
  with buy price show ?thesis
    unfolding low by blast
qed

section \<open>No keyword\<close>

text \<open>
  C6. When the lowercased text holds no keyword of any of the five rules,
  \<open>detect_intent\<close> returns General; so it does on the empty string. The function has no
  failing branch.
\<close>

theorem detect_intent_general:
  "((\<forall>rule \<in> set spec_rule_table. \<forall>k \<in> set (fst rule). \<not> sublist k (lower U text))
     \<longrightarrow> detect_intent U text = str ''General'')
   \<and> detect_intent U [] = str ''General''"
proof
  show "(\<forall>rule \<in> set spec_rule_table. \<forall>k \<in> set (fst rule). \<not> sublist k (lower U text))
     \<longrightarrow> detect_intent U text = str ''General''"
    by (simp add: detect_intent_def Let_def any_in_iff spec_rule_table_def)
  show "detect_intent U [] = str ''General''"
    by (simp add: detect_intent_def Let_def lower_def any_in_def str_def)
qed

theorem detect_intent_general_witness:
  "\<not> any_in (concat (map fst spec_rule_table))
       (lower keep_non_ascii (str ''The weather is nice today.''))
   \<and> detect_intent keep_non_ascii (str ''The weather is nice today.'') = str ''General''"
proof -
  have low: "lower keep_non_ascii (str ''The weather is nice today.'')
      = str ''the weather is nice today.''"
    by (simp add: lower_def str_def ascii_lower_def)
  have none: "\<not> any_in (concat (map fst spec_rule_table))
      (lower keep_non_ascii (str ''The weather is nice today.''))"
    unfolding low by (simp add: spec_rule_table_def any_in_def str_def)
  then have "\<forall>rule \<in> set spec_rule_table. \<forall>k \<in> set (fst rule).
      \<not> sublist k (lower keep_non_ascii (str ''The weather is nice today.''))"
    unfolding any_in_iff by auto
  with detect_intent_general [of keep_non_ascii "str ''The weather is nice today.''"]
  have "detect_intent keep_non_ascii (str ''The weather is nice today.'') = str ''General''"
    by blast
  with none show ?thesis by blast
qed

section \<open>Case\<close>

text \<open>
  C7. \<open>detect_intent\<close> gives a text and its lowercased copy the same label, for every
  text, ASCII or not, on an interpreter whose case tables are stable: what they produce
  for a code point from 128 on is lowercase already, with no ASCII capital in it and no
  code point that lowering would change again. For a text of code points below 128 the
  tables are not consulted and nothing is asked of them. \<open>BUY this phone\<close> and
  \<open>buy this phone\<close> get the same label.
\<close>

theorem detect_intent_case_insensitive:
  "(stable_case_tables U
      \<longrightarrow> detect_intent U text = detect_intent U (lower U text))
   \<and> ((\<forall>c \<in> set text. c < 128)
      \<longrightarrow> detect_intent U text = detect_intent U (lower U text))
   \<and> detect_intent U (str ''BUY this phone'') = detect_intent U (str ''buy this phone'')"
proof (intro conjI impI)
  assume "stable_case_tables U"
  then have "lower U (lower U text) = lower U text"
    by (rule lower_stable_idem)
  then show "detect_intent U text = detect_intent U (lower U text)"
    by (simp add: detect_intent_def)
next
  assume "\<forall>c \<in> set text. c < 128"
  then have "lower U (lower U text) = lower U text"
    by (rule lower_ascii_idem)
  then show "detect_intent U text = detect_intent U (lower U text)"
    by (simp add: detect_intent_def)
next
  have "lower U (str ''BUY this phone'') = lower U (str ''buy this phone'')"
    by (simp add: lower_def str_def ascii_lower_def)
  then show "detect_intent U (str ''BUY this phone'') = detect_intent U (str ''buy this phone'')"
    by (rule detect_intent_lower_cong)
qed

text \<open>
  The witness runs a text that is not ASCII: \<open>It is not worKing\<close> spelled with the
  Kelvin sign, which only lowering turns into the keyword \<open>not working\<close>.
\<close>

theorem detect_intent_case_insensitive_witness:
  "stable_case_tables sample_case_tables
   \<and> lower sample_case_tables (str ''It is not wor'' @ [0x212A] @ str ''ing'')
       = str ''it is not working''
   \<and> detect_intent sample_case_tables (str ''It is not wor'' @ [0x212A] @ str ''ing'')
       = detect_intent sample_case_tables
           (lower sample_case_tables (str ''It is not wor'' @ [0x212A] @ str ''ing''))
   \<and> detect_intent sample_case_tables (str ''It is not wor'' @ [0x212A] @ str ''ing'')
       = str ''Complaint''
   \<and> list_all (\<lambda>c. c < 128) (str ''BUY this phone'')
   \<and> detect_intent keep_non_ascii (str ''BUY this phone'')
       = detect_intent keep_non_ascii (lower keep_non_ascii (str ''BUY this phone''))"
proof -
  have low: "lower sample_case_tables (str ''It is not wor'' @ [0x212A] @ str ''ing'')
      = str ''it is not working''"
    by (simp add: lower_def str_def ascii_lower_def sample_case_tables_def)
  have complaint:
    "detect_intent sample_case_tables (str ''It is not wor'' @ [0x212A] @ str ''ing'')
      = str ''Complaint''"
    by (simp add: detect_intent_def Let_def lower_def str_def ascii_lower_def any_in_def
        sample_case_tables_def)
  from detect_intent_case_insensitive
    [of sample_case_tables "str ''It is not wor'' @ [0x212A] @ str ''ing''"]
    sample_case_tables_stable
  have same:
    "detect_intent sample_case_tables (str ''It is not wor'' @ [0x212A] @ str ''ing'')
      = detect_intent sample_case_tables
          (lower sample_case_tables (str ''It is not wor'' @ [0x212A] @ str ''ing''))"
    by blast
  have a: "list_all (\<lambda>c. c < 128) (str ''BUY this phone'')"
    by (simp add: str_def)
  then have "\<forall>c \<in> set (str ''BUY this phone''). c < 128"
    by (simp only: list_all_iff)
  with detect_intent_case_insensitive [of keep_non_ascii "str ''BUY this phone''"]
  have buy: "detect_intent keep_non_ascii (str ''BUY this phone'')
       = detect_intent keep_non_ascii (lower keep_non_ascii (str ''BUY this phone''))"
    by blast
  from sample_case_tables_stable low same complaint a buy show ?thesis
    by (intro conjI)
qed

section \<open>The two scripts\<close>

text \<open>
  C9. On every text the \<open>detect_intent\<close> of \<open>app.py\<close> and that of
  \<open>sentiment analysis.py\<close> take the same branch. Their results differ only in the
  wording of rules 2, 4 and 5 (Ask for Price, Product Comparison, Ask for Offers
  against Ask for price, Compare Product, Ask for offers) and are equal on Purchase
  Interest, Complaint and General.
\<close>

theorem detect_intent_scripts_agree:
  "detect_intent_sentiment_analysis U text = sentiment_analysis_label (detect_intent U text)
   \<and> (detect_intent U text = str ''Purchase Interest'')
     = (detect_intent_sentiment_analysis U text = str ''Purchase Interest'')
   \<and> (detect_intent U text = str ''Ask for Price'')
     = (detect_intent_sentiment_analysis U text = str ''Ask for price'')
   \<and> (detect_intent U text = str ''Complaint'')
     = (detect_intent_sentiment_analysis U text = str ''Complaint'')
   \<and> (detect_intent U text = str ''Product Comparison'')
     = (detect_intent_sentiment_analysis U text = str ''Compare Product'')
   \<and> (detect_intent U text = str ''Ask for Offers'')
     = (detect_intent_sentiment_analysis U text = str ''Ask for offers'')
   \<and> (detect_intent U text = str ''General'')
     = (detect_intent_sentiment_analysis U text = str ''General'')
   \<and> (detect_intent U text = detect_intent_sentiment_analysis U text)
     = (detect_intent U text
          \<in> set [str ''Purchase Interest'', str ''Complaint'', str ''General''])"
  unfolding detect_intent_def detect_intent_sentiment_analysis_def Let_def
    sentiment_analysis_label_def
  by (intro conjI) simp_all

section \<open>Sales suggestions: intent before sentiment\<close>

text \<open>
  C3. For each of the intents Purchase Interest, Ask for Price and Complaint,
  \<open>ai_sales_response\<close> returns the reply of that intent, whatever the sentiment label
  is, so its result is the same for any two sentiment labels. With the intent Complaint
  and the sentiment POSITIVE it is the Complaint reply, and for no sentiment is it the
  reply for negative sentiment or the generic one.
\<close>

theorem ai_sales_response_intent_wins:
  "ai_sales_response (str ''Purchase Interest'') s =
     [str ''next_question'' \<mapsto> str ''Would you like to know the available models or pricing?'',
      str ''soft_handling'' \<mapsto> str ''Great! Let me help you choose the best option.'',
      str ''recommendation'' \<mapsto> str ''Our latest model offers excellent value for buyers.'']
   \<and> ai_sales_response (str ''Ask for Price'') s =
     [str ''next_question'' \<mapsto> str ''Do you have any budget range in mind?'',
      str ''soft_handling'' \<mapsto>
        str ''I'' @ [8217] @ str ''ll help you find the best model in your range.'',
      str ''recommendation'' \<mapsto> str ''We have offers and EMI options you might like.'']
   \<and> ai_sales_response (str ''Complaint'') s =
     [str ''next_question'' \<mapsto> str ''Could you explain the issue you're facing?'',
      str ''soft_handling'' \<mapsto> str ''I truly apologize for the inconvenience.'',
      str ''recommendation'' \<mapsto> str ''We can quickly guide you through a solution.'']
   \<and> ai_sales_response (str ''Purchase Interest'') s
     = ai_sales_response (str ''Purchase Interest'') s'
   \<and> ai_sales_response (str ''Ask for Price'') s = ai_sales_response (str ''Ask for Price'') s'
   \<and> ai_sales_response (str ''Complaint'') s = ai_sales_response (str ''Complaint'') s'
   \<and> ai_sales_response (str ''Complaint'') (str ''POSITIVE'') =
        [str ''next_question'' \<mapsto> str ''Could you explain the issue you're facing?'',
         str ''soft_handling'' \<mapsto> str ''I truly apologize for the inconvenience.'',
         str ''recommendation'' \<mapsto> str ''We can quickly guide you through a solution.'']
   \<and> ai_sales_response (str ''Complaint'') s (str ''next_question'')
        \<noteq> Some (str ''What would you like us to improve?'')
   \<and> ai_sales_response (str ''Complaint'') s (str ''next_question'')
        \<noteq> Some (str ''How can I assist you further?'')"
  by (simp add: ai_sales_response_def)

text \<open>
  C4. \<open>ai_sales_response\<close> is a total function of the intent and the sentiment label,
  whatever strings they are. Its result has exactly the three keys \<open>next_question\<close>,
  \<open>soft_handling\<close> and \<open>recommendation\<close>, each with a non-empty string.
\<close>

theorem ai_sales_response_three_nonempty:
  "dom (ai_sales_response i s)
     = {str ''next_question'', str ''soft_handling'', str ''recommendation''}
   \<and> (\<exists>q. ai_sales_response i s (str ''next_question'') = Some q \<and> q \<noteq> [])
   \<and> (\<exists>h. ai_sales_response i s (str ''soft_handling'') = Some h \<and> h \<noteq> [])
   \<and> (\<exists>r. ai_sales_response i s (str ''recommendation'') = Some r \<and> r \<noteq> [])"
  unfolding ai_sales_response_def by (intro conjI) auto

section \<open>Sales suggestions: the exact strings\<close>

text \<open>
  C5 as stated fails: the specification writes \<open>I'll\<close> with the ASCII apostrophe
  (code point 39), the source with U+2019, in the soft handling of Ask for Price and in
  the recommendation of the generic reply.
\<close>

theorem ai_sales_response_apostrophe_counterexample:
  "ai_sales_response (str ''Ask for Price'') (str ''POSITIVE'') (str ''soft_handling'')
     \<noteq> Some (str ''I'll help you find the best model in your range.'')
   \<and> ai_sales_response (str ''General'') (str ''POSITIVE'') (str ''recommendation'')
     \<noteq> Some (str ''Let me know your preference and I'll recommend the best option.'')"
  by (simp add: ai_sales_response_def) (simp add: str_def)

text \<open>
  C5 (as amended). In each case \<open>ai_sales_response\<close> returns the strings listed in the
  specification, character for character, but for the apostrophe of \<open>I'll\<close>, which is
  U+2019 in the soft handling of Ask for Price and in the recommendation of the generic
  reply, for every sentiment label.
\<close>

theorem ai_sales_response_exact_strings:
  "ai_sales_response (str ''Purchase Interest'') s =
     [str ''next_question'' \<mapsto> str ''Would you like to know the available models or pricing?'',
      str ''soft_handling'' \<mapsto> str ''Great! Let me help you choose the best option.'',
      str ''recommendation'' \<mapsto> str ''Our latest model offers excellent value for buyers.'']
   \<and> ai_sales_response (str ''Ask for Price'') s =
     [str ''next_question'' \<mapsto> str ''Do you have any budget range in mind?'',
      str ''soft_handling'' \<mapsto>
        str ''I'' @ [8217] @ str ''ll help you find the best model in your range.'',
      str ''recommendation'' \<mapsto> str ''We have offers and EMI options you might like.'']
   \<and> ai_sales_response (str ''Complaint'') s =
     [str ''next_question'' \<mapsto> str ''Could you explain the issue you're facing?'',
      str ''soft_handling'' \<mapsto> str ''I truly apologize for the inconvenience.'',
      str ''recommendation'' \<mapsto> str ''We can quickly guide you through a solution.'']
   \<and> (i \<notin> set [str ''Purchase Interest'', str ''Ask for Price'', str ''Complaint'']
      \<longrightarrow> ai_sales_response i (str ''NEGATIVE'') =
        [str ''next_question'' \<mapsto> str ''What would you like us to improve?'',
         str ''soft_handling'' \<mapsto>
           str ''I understand your concern '' @ [8212] @ str '' I'm here to help.'',
         str ''recommendation'' \<mapsto>
           str ''We can offer alternatives that better fit your needs.''])
   \<and> (i \<notin> set [str ''Purchase Interest'', str ''Ask for Price'', str ''Complaint'']
        \<and> s \<noteq> str ''NEGATIVE''
      \<longrightarrow> ai_sales_response i s =
        [str ''next_question'' \<mapsto> str ''How can I assist you further?'',
         str ''soft_handling'' \<mapsto> str ''I'm right here to help.'',
         str ''recommendation'' \<mapsto>
           str ''Let me know your preference and I'' @ [8217]
             @ str ''ll recommend the best option.''])"
  by (simp add: ai_sales_response_def)

theorem ai_sales_response_exact_strings_witness:
  "str ''General'' \<notin> set [str ''Purchase Interest'', str ''Ask for Price'', str ''Complaint'']
   \<and> str ''POSITIVE'' \<noteq> str ''NEGATIVE''
   \<and> ai_sales_response (str ''General'') (str ''NEGATIVE'') (str ''soft_handling'')
       = Some (str ''I understand your concern '' @ [8212] @ str '' I'm here to help.'')
   \<and> ai_sales_response (str ''General'') (str ''POSITIVE'') (str ''recommendation'')
       = Some (str ''Let me know your preference and I'' @ [8217]
           @ str ''ll recommend the best option.'')"
proof -
  have a: "str ''General'' \<notin> set [str ''Purchase Interest'', str ''Ask for Price'',
      str ''Complaint'']"
    and b: "str ''POSITIVE'' \<noteq> str ''NEGATIVE''"
    by simp_all
  from ai_sales_response_exact_strings [of "str ''POSITIVE''" "str ''General''"] a b
  have "ai_sales_response (str ''General'') (str ''NEGATIVE'') (str ''soft_handling'')
       = Some (str ''I understand your concern '' @ [8212] @ str '' I'm here to help.'')"
    and "ai_sales_response (str ''General'') (str ''POSITIVE'') (str ''recommendation'')
       = Some (str ''Let me know your preference and I'' @ [8217]
           @ str ''ll recommend the best option.'')"
    by simp_all
  with a b show ?thesis by blast
qed

section \<open>Sales suggestions: the other intents\<close>

text \<open>
  C10. For an intent that is none of Purchase Interest, Ask for Price and Complaint, any
  string at all, the result of \<open>ai_sales_response\<close> depends only on whether the
  sentiment is exactly the string NEGATIVE: then it is the reply for negative
  sentiment, and for every other sentiment string it is the generic reply.
\<close>

theorem ai_sales_response_other_intents:
  "i \<noteq> str ''Purchase Interest'' \<Longrightarrow> i \<noteq> str ''Ask for Price''
   \<Longrightarrow> i \<noteq> str ''Complaint''
   \<Longrightarrow> ai_sales_response i s =
       (if s = str ''NEGATIVE'' then
          [str ''next_question'' \<mapsto> str ''What would you like us to improve?'',
           str ''soft_handling'' \<mapsto>
             str ''I understand your concern '' @ [8212] @ str '' I'm here to help.'',
           str ''recommendation'' \<mapsto>
             str ''We can offer alternatives that better fit your needs.'']
        else
          [str ''next_question'' \<mapsto> str ''How can I assist you further?'',
           str ''soft_handling'' \<mapsto> str ''I'm right here to help.'',
           str ''recommendation'' \<mapsto>
             str ''Let me know your preference and I'' @ [8217]
               @ str ''ll recommend the best option.''])"
  by (simp add: ai_sales_response_def)

theorem ai_sales_response_other_intents_witness:
  "str ''Compare Product'' \<noteq> str ''Purchase Interest''
   \<and> str ''Compare Product'' \<noteq> str ''Ask for Price''
   \<and> str ''Compare Product'' \<noteq> str ''Complaint''
   \<and> ai_sales_response (str ''Compare Product'') (str ''NEGATIVE'') (str ''next_question'')
       = Some (str ''What would you like us to improve?'')
   \<and> ai_sales_response (str ''Compare Product'') (str ''negative'') (str ''next_question'')
       = Some (str ''How can I assist you further?'')
   \<and> ai_sales_response (str ''Compare Product'') (str ''Negative'') (str ''next_question'')
       = Some (str ''How can I assist you further?'')"
proof -
  have a: "str ''Compare Product'' \<noteq> str ''Purchase Interest''"
    and b: "str ''Compare Product'' \<noteq> str ''Ask for Price''"
    and c: "str ''Compare Product'' \<noteq> str ''Complaint''"
    by simp_all
  note r = ai_sales_response_other_intents [OF a b c]
  have "ai_sales_response (str ''Compare Product'') (str ''NEGATIVE'') (str ''next_question'')
       = Some (str ''What would you like us to improve?'')"
    by (simp add: r)
  moreover
  have "ai_sales_response (str ''Compare Product'') (str ''negative'') (str ''next_question'')
       = Some (str ''How can I assist you further?'')"
    by (simp add: r)
  moreover
  have "ai_sales_response (str ''Compare Product'') (str ''Negative'') (str ''next_question'')
       = Some (str ''How can I assist you further?'')"
    by (simp add: r)
  ultimately show ?thesis using a b c by blast
qed

section \<open>The models on an empty transcript\<close>

text \<open>
  C8 as stated fails: neither script guards the calls. On a clip whose transcription is
  a blank, the stripped transcript is empty and both the sentiment model and the entity
  model are called on it.
\<close>

theorem run_empty_transcript_counterexample:
  "strip ascii_space (str '' '') = []
   \<and> fst (run_app ascii_space keep_non_ascii silence (Some (str ''clip.wav'')))
       = [Transcribe (str ''clip.wav''), Sentiment [], Entities []]
   \<and> fst (run_sentiment_analysis ascii_space keep_non_ascii silence (str ''clip.wav''))
       = [Transcribe (str ''clip.wav''), Sentiment [], Entities []]"
  by (simp add: run_app_def run_sentiment_analysis_def silence_def strip_def
      ascii_space_def str_def Let_def)

text \<open>
  C8 (as amended). In both scripts the calls are not guarded: once transcription of a
  waveform has returned, the sentiment model is called on the stripped transcript, also
  when that is the empty string, and when the sentiment model returns a first result
  the entity model is called on the same text.
\<close>

theorem run_calls_models_unguarded:
  "(p \<noteq> [] \<and> whisper_model M p = Inr result
      \<and> t = strip space (case result of Some s \<Rightarrow> s | None \<Rightarrow> [])
      \<longrightarrow> Sentiment t \<in> set (fst (run_app space U M (Some p)))
        \<and> Sentiment t \<in> set (fst (run_sentiment_analysis space U M p)))
   \<and> (p \<noteq> [] \<and> whisper_model M p = Inr result
      \<and> t = strip space (case result of Some s \<Rightarrow> s | None \<Rightarrow> [])
      \<and> sentiment_model M t = Inr (sent # others)
      \<longrightarrow> Entities t \<in> set (fst (run_app space U M (Some p)))
        \<and> Entities t \<in> set (fst (run_sentiment_analysis space U M p)))"
  by (auto simp: run_app_def run_sentiment_analysis_def Let_def
      split: sum.splits list.splits)

theorem run_calls_models_unguarded_witness:
  "str ''clip.wav'' \<noteq> []
   \<and> whisper_model silence (str ''clip.wav'') = Inr (Some (str '' ''))
   \<and> [] = strip ascii_space (case Some (str '' '') of Some s \<Rightarrow> s | None \<Rightarrow> [])
   \<and> sentiment_model silence [] = Inr [(str ''POSITIVE'', 0.75)]
   \<and> Sentiment [] \<in> set (fst (run_app ascii_space keep_non_ascii silence
        (Some (str ''clip.wav''))))
   \<and> Entities [] \<in> set (fst (run_app ascii_space keep_non_ascii silence
        (Some (str ''clip.wav''))))
   \<and> Sentiment [] \<in> set (fst (run_sentiment_analysis ascii_space keep_non_ascii silence
        (str ''clip.wav'')))
   \<and> Entities [] \<in> set (fst (run_sentiment_analysis ascii_space keep_non_ascii silence
        (str ''clip.wav'')))"
proof -
  have a: "str ''clip.wav'' \<noteq> []"
    by simp
  have b: "whisper_model silence (str ''clip.wav'') = Inr (Some (str '' ''))"
    by (simp add: silence_def)
  have c: "[] = strip ascii_space (case Some (str '' '') of Some s \<Rightarrow> s | None \<Rightarrow> [])"
    by (simp add: strip_def ascii_space_def str_def)
  have d: "sentiment_model silence [] = Inr [(str ''POSITIVE'', 0.75)]"
    by (simp add: silence_def)
  from run_calls_models_unguarded
    [of "str ''clip.wav''" silence "Some (str '' '')" "[]" ascii_space keep_non_ascii
      "(str ''POSITIVE'', 0.75)" "[]"]
    a b c d
  show ?thesis by blast
qed

end
